theory Spec2Isabelle
  imports Main "HOL-Library.AList" "HOL-Library.List_Lexorder" "HOL-Library.Multiset"
begin

section \<open>JavaScript values\<close>

text \<open>
  The values the test model handles are trees: the primitives of JavaScript
  (\<open>undefined\<close>, \<open>null\<close>, booleans, numbers, BigInts, strings and symbols),
  functions, arrays and objects. An object is an association list in the order in
  which \<open>for ... in\<close> visits its properties (the insertion order, for keys that are
  not array indices); a key is looked up at its first binding, and an object of
  JavaScript corresponds to a list with distinct keys. Numbers are the integers,
  \<open>NaN\<close> and the two infinities (\<open>JInfinity True\<close> is the positive one);
  fractions are not represented. A symbol is its description and
  a number that tells it from every other symbol. A function is an arrow function or a
  method: its own properties are \<open>name\<close> and \<open>length\<close> (it has no \<open>prototype\<close>),
  and it carries the source text that \<open>String\<close> returns for it; calling it is not
  modelled. Cyclic objects, accessor properties and properties with a symbol as key
  are not represented.
\<close>

datatype jsval =
    JUndefined
  | JNull
  | JBool bool
  | JNum int
  | JNaN
  | JInfinity bool
  | JBigInt int
  | JStr string
  | JSymbol string nat
  | JFunction string nat string
  | JArr "jsval list"
  | JObj "(string \<times> jsval) list"

type_synonym jsobj = "(string \<times> jsval) list"

text \<open>
  Thrown values: an error object with its \<open>name\<close> and \<open>message\<close> (\<open>new Error(msg)\<close>
  has the name \<open>Error\<close>), any other value, and the \<open>TypeError\<close> that the engine
  itself raises, whose message differs from engine to engine and is left open.
\<close>

datatype error = Exception string string | Thrown jsval | EngineTypeError

abbreviation Error :: "string \<Rightarrow> error" where
  "Error message \<equiv> Exception ''Error'' message"

text \<open>
  What a call does: it returns a value or it throws. \<open>Unmodelled\<close> is the answer of the
  model on the few inputs it does not cover (they are named where they arise); it is
  no behaviour of the source.
\<close>

datatype 'a outcome = Returns 'a | Throws error | Unmodelled

text \<open>Sequencing of computations that may throw.\<close>

fun andThen :: "'a outcome \<Rightarrow> ('a \<Rightarrow> 'b outcome) \<Rightarrow> 'b outcome" where
  "andThen (Returns x) f = f x"
| "andThen (Throws e) f = Throws e"
| "andThen Unmodelled f = Unmodelled"

text \<open>\<open>xs.map(f)\<close>: the calls are made in order and the first throw ends the loop.\<close>

fun map_outcome :: "('a \<Rightarrow> 'b outcome) \<Rightarrow> 'a list \<Rightarrow> 'b list outcome" where
  "map_outcome f [] = Returns []"
| "map_outcome f (x # xs) =
     andThen (f x) (\<lambda>y. andThen (map_outcome f xs) (\<lambda>ys. Returns (y # ys)))"

text \<open>Truthiness, as tested by \<open>if (v)\<close>, \<open>!v\<close> and \<open>&&\<close>.\<close>

fun truthy :: "jsval \<Rightarrow> bool" where
  "truthy JUndefined = False"
| "truthy JNull = False"
| "truthy (JBool b) = b"
| "truthy (JNum n) = (n \<noteq> 0)"
| "truthy JNaN = False"
| "truthy (JInfinity p) = True"
| "truthy (JBigInt n) = (n \<noteq> 0)"
| "truthy (JStr s) = (s \<noteq> [])"
| "truthy (JSymbol d i) = True"
| "truthy (JFunction n a s) = True"
| "truthy (JArr _) = True"
| "truthy (JObj _) = True"

datatype jstype =
  TUndefined | TObject | TBoolean | TNumber | TBigInt | TString | TSymbol | TFunction

fun typeof :: "jsval \<Rightarrow> jstype" where
  "typeof JUndefined = TUndefined"
| "typeof JNull = TObject"
| "typeof (JBool _) = TBoolean"
| "typeof (JNum _) = TNumber"
| "typeof JNaN = TNumber"
| "typeof (JInfinity _) = TNumber"
| "typeof (JBigInt _) = TBigInt"
| "typeof (JStr _) = TString"
| "typeof (JSymbol _ _) = TSymbol"
| "typeof (JFunction _ _ _) = TFunction"
| "typeof (JArr _) = TObject"
| "typeof (JObj _) = TObject"

fun isArray :: "jsval \<Rightarrow> bool" where
  "isArray (JArr _) = True"
| "isArray _ = False"

fun is_function :: "jsval \<Rightarrow> bool" where
  "is_function (JFunction _ _ _) = True"
| "is_function _ = False"

fun is_symbol :: "jsval \<Rightarrow> bool" where
  "is_symbol (JSymbol _ _) = True"
| "is_symbol _ = False"

text \<open>
  \<open>a === b\<close> where one of the two is a primitive: equality of values, but that
  \<open>NaN\<close> is not equal to itself.
\<close>

definition strict_equal :: "jsval \<Rightarrow> jsval \<Rightarrow> bool" where
  "strict_equal a b = (a = b \<and> a \<noteq> JNaN)"

text \<open>\<open>a ?? b\<close>: the right operand when the left one is \<open>null\<close> or \<open>undefined\<close>.\<close>

fun nullish :: "jsval \<Rightarrow> jsval \<Rightarrow> jsval" where
  "nullish JUndefined b = b"
| "nullish JNull b = b"
| "nullish a b = a"

text \<open>Decimal numerals: the property names of array elements and string characters.\<close>

fun digit :: "nat \<Rightarrow> char" where
  "digit n = char_of (48 + n)"

fun dec :: "nat \<Rightarrow> string" where
  "dec n = (if n < 10 then [digit n] else dec (n div 10) @ [digit (n mod 10)])"

declare dec.simps [simp del]

text \<open>
  The own properties of a value. Those of an array or of a string are its indices (the
  enumerable ones, in order) and \<open>length\<close> (not enumerable); those of a function are
  \<open>length\<close> and \<open>name\<close> (not enumerable); the other primitives have none.
\<close>

fun enum_props :: "jsval \<Rightarrow> jsobj" where
  "enum_props (JObj kvs) = kvs"
| "enum_props (JArr xs) = zip (map dec [0..<length xs]) xs"
| "enum_props (JStr s) = zip (map dec [0..<length s]) (map (\<lambda>c. JStr [c]) s)"
| "enum_props _ = []"

fun own_props :: "jsval \<Rightarrow> jsobj" where
  "own_props (JArr xs) = enum_props (JArr xs) @ [(''length'', JNum (int (length xs)))]"
| "own_props (JStr s) = enum_props (JStr s) @ [(''length'', JNum (int (length s)))]"
| "own_props (JFunction n a s) = [(''length'', JNum (int a)), (''name'', JStr n)]"
| "own_props v = enum_props v"

text \<open>Whether \<open>k\<close> is the name of an own property of \<open>v\<close>.\<close>

definition owns :: "jsval \<Rightarrow> string \<Rightarrow> bool" where
  "owns v k = (map_of (own_props v) k \<noteq> None)"

text \<open>
  The call \<open>v.hasOwnProperty(k)\<close>. The method is looked up on \<open>v\<close>: on \<open>null\<close> and
  \<open>undefined\<close> the lookup throws; an object with an own property named
  \<open>hasOwnProperty\<close> answers with that property, so the call throws when its value is
  no function and runs that function (which is not modelled) when it is one; every
  other value inherits the method of \<open>Object.prototype\<close>.
\<close>

definition hasOwnProperty :: "jsval \<Rightarrow> string \<Rightarrow> bool outcome" where
  "hasOwnProperty v k =
     (case v of
        JUndefined \<Rightarrow> Throws EngineTypeError
      | JNull \<Rightarrow> Throws EngineTypeError
      | JObj kvs \<Rightarrow>
          (case map_of kvs ''hasOwnProperty'' of
             None \<Rightarrow> Returns (owns v k)
           | Some m \<Rightarrow> if is_function m then Unmodelled else Throws EngineTypeError)
      | _ \<Rightarrow> Returns (owns v k))"

text \<open>
  \<open>v[k]\<close> and \<open>v.k\<close>: reading a property of \<open>null\<close> or \<open>undefined\<close> throws; a
  missing property reads as \<open>undefined\<close>. Inherited properties are not modelled: the
  sources read no property that \<open>Object.prototype\<close>, \<open>Array.prototype\<close>,
  \<open>String.prototype\<close> or \<open>Function.prototype\<close> provides, but for the methods
  modelled on their own (\<open>hasOwnProperty\<close>, \<open>toString\<close>, \<open>toJSON\<close>).
\<close>

definition read_prop :: "jsval \<Rightarrow> string \<Rightarrow> jsval" where
  "read_prop v k = (case map_of (own_props v) k of None \<Rightarrow> JUndefined | Some x \<Rightarrow> x)"

definition get_prop :: "jsval \<Rightarrow> string \<Rightarrow> jsval outcome" where
  "get_prop v k =
     (if v = JUndefined \<or> v = JNull then Throws EngineTypeError
      else Returns (read_prop v k))"

text \<open>Reading a property of an object: never throws.\<close>

definition field :: "jsobj \<Rightarrow> string \<Rightarrow> jsval" where
  "field kvs k = (case map_of kvs k of None \<Rightarrow> JUndefined | Some x \<Rightarrow> x)"

text \<open>
  The conversion to a string of a template literal \<open>`${v}`\<close>. A symbol cannot be
  converted. An array joins the conversions of its elements, \<open>null\<close> and
  \<open>undefined\<close> giving the empty string. An object answers with
  \<open>Object.prototype.toString\<close> unless it has an own property \<open>toString\<close>: then that
  one is called if it is a function (not modelled), and otherwise \<open>valueOf\<close> is
  tried, which as a function of its own is not modelled either and as anything else
  leaves no primitive to return.
\<close>

fun show_int :: "int \<Rightarrow> string" where
  "show_int n = (if n < 0 then ''-'' @ dec (nat (- n)) else dec (nat n))"

fun join :: "string list \<Rightarrow> string" where
  "join [] = []"
| "join [s] = s"
| "join (s # t # ss) = s @ '','' @ join (t # ss)"

fun to_String :: "jsval \<Rightarrow> string outcome"
  and to_String_elems :: "jsval list \<Rightarrow> string list outcome" where
  "to_String JUndefined = Returns ''undefined''"
| "to_String JNull = Returns ''null''"
| "to_String (JBool b) = Returns (if b then ''true'' else ''false'')"
| "to_String (JNum n) = Returns (show_int n)"
| "to_String JNaN = Returns ''NaN''"
| "to_String (JInfinity p) = Returns (if p then ''Infinity'' else ''-Infinity'')"
| "to_String (JBigInt n) = Returns (show_int n)"
| "to_String (JStr s) = Returns s"
| "to_String (JSymbol d i) = Throws EngineTypeError"
| "to_String (JFunction n a s) = Returns s"
| "to_String (JArr xs) = andThen (to_String_elems xs) (\<lambda>ss. Returns (join ss))"
| "to_String (JObj kvs) =
     (case map_of kvs ''toString'' of
        None \<Rightarrow> Returns ''[object Object]''
      | Some m \<Rightarrow>
          if is_function m then Unmodelled
          else (case map_of kvs ''valueOf'' of
                  None \<Rightarrow> Throws EngineTypeError
                | Some m' \<Rightarrow> if is_function m' then Unmodelled else Throws EngineTypeError))"
| "to_String_elems [] = Returns []"
| "to_String_elems (x # xs) =
     andThen (if x = JUndefined \<or> x = JNull then Returns [] else to_String x)
       (\<lambda>s. andThen (to_String_elems xs) (\<lambda>ss. Returns (s # ss)))"

text \<open>
  \<open>String(v)\<close>: as above, but a symbol gives its descriptive string. For an error
  object it is \<open>Error.prototype.toString\<close>: the name when the message is empty, the
  message when the name is empty, and otherwise the name, a colon and the message.
  The text of an error of the engine is the engine's.
\<close>

definition String_of :: "jsval \<Rightarrow> string outcome" where
  "String_of v = (case v of JSymbol d i \<Rightarrow> Returns (''Symbol('' @ d @ '')'') | _ \<Rightarrow> to_String v)"

fun String_of_error :: "error \<Rightarrow> string outcome" where
  "String_of_error (Exception name message) =
     Returns (if name = [] then message else if message = [] then name
              else name @ '': '' @ message)"
| "String_of_error (Thrown v) = String_of v"
| "String_of_error EngineTypeError = Unmodelled"

section \<open>The platform\<close>

text \<open>
  \<open>sanitizeItem\<close> and \<open>deepEqual\<close> call into the host platform: the item type and item
  field registries (\<open>Zotero.ItemTypes\<close>, \<open>Zotero.ItemFields\<close>), the tag cleaner
  \<open>Zotero.Translate.Base.prototype._cleanTags\<close> and \<open>Zotero.Utilities.trimInternal\<close>.
  They are not part of the sources at hand and are parameters of the model. An
  identifier is a natural number; \<open>None\<close> stands for the falsy answer (\<open>false\<close>) of
  a lookup. \<open>numeric_lt\<close> is the operator \<open><\<close> on two primitives that are not both
  strings and of which none is a symbol (it then compares after a conversion to
  numbers that the integer model of numbers cannot express).
\<close>

record platform =
  ItemTypes_getID :: "jsval \<Rightarrow> nat option"
  ItemFields_getID :: "string \<Rightarrow> nat option"
  ItemFields_getFieldIDFromTypeAndBase :: "nat option \<Rightarrow> nat \<Rightarrow> nat option"
  ItemFields_getName :: "nat \<Rightarrow> string"
  ItemFields_isValidForType :: "nat \<Rightarrow> nat option \<Rightarrow> bool"
  cleanTags :: "jsval list \<Rightarrow> jsval list"
  trimInternal :: "string \<Rightarrow> string"
  numeric_lt :: "jsval \<Rightarrow> jsval \<Rightarrow> bool"

section \<open>The record normalizer: \<open>sanitizeItem\<close> (test.mjs)\<close>

text \<open>
  The first loop: every attachment loses a truthy \<open>document\<close> (and gets the media type
  \<open>text/html\<close>), a truthy \<open>url\<close> and a truthy \<open>complete\<close>. Reading a property of an
  attachment that is \<open>null\<close> or \<open>undefined\<close> throws; a primitive, a function or an
  array has none of the three properties.
\<close>

fun clean_attachment :: "jsval \<Rightarrow> jsval outcome" where
  "clean_attachment JUndefined = Throws EngineTypeError"
| "clean_attachment JNull = Throws EngineTypeError"
| "clean_attachment (JObj a) =
     (let a1 = (if truthy (field a ''document'')
                then AList.update ''mimeType'' (JStr ''text/html'') (AList.delete ''document'' a)
                else a);
          a2 = (if truthy (field a1 ''url'') then AList.delete ''url'' a1 else a1);
          a3 = (if truthy (field a2 ''complete'') then AList.delete ''complete'' a2 else a2)
      in Returns (JObj a3))"
| "clean_attachment v = Returns v"

text \<open>
  \<open>for ... of\<close> walks an array or the characters of a string (which have no property
  to delete); any other value with a truthy \<open>length\<close> is not iterable.
\<close>

definition clean_attachments :: "jsobj \<Rightarrow> jsobj outcome" where
  "clean_attachments item =
     (let atts = field item ''attachments'' in
      if truthy atts \<and> truthy (read_prop atts ''length'')
      then (case atts of
              JArr xs \<Rightarrow>
                andThen (map_outcome clean_attachment xs)
                  (\<lambda>ys. Returns (AList.update ''attachments'' (JArr ys) item))
            | JStr s \<Rightarrow> Returns item
            | _ \<Rightarrow> Throws EngineTypeError)
      else Returns item)"

text \<open>
  \<open>JSON.parse(JSON.stringify(v))\<close>. \<open>JSON.stringify\<close> gives \<open>undefined\<close> for
  \<open>undefined\<close>, a function and a symbol (the answer \<open>None\<close>): as the value of a
  property they make it drop the property, as an element of an array they become
  \<open>null\<close>. \<open>NaN\<close> and the infinities are serialized as \<open>null\<close>. It throws on a
  BigInt. On an object with a method \<open>toJSON\<close> it calls that method, which is not
  modelled.
\<close>

definition has_toJSON :: "jsobj \<Rightarrow> bool" where
  "has_toJSON kvs = (case map_of kvs ''toJSON'' of None \<Rightarrow> False | Some m \<Rightarrow> is_function m)"

fun json_roundtrip :: "jsval \<Rightarrow> jsval option outcome"
  and json_elems :: "jsval list \<Rightarrow> jsval list outcome"
  and json_props :: "jsobj \<Rightarrow> jsobj outcome" where
  "json_roundtrip JUndefined = Returns None"
| "json_roundtrip (JFunction n a s) = Returns None"
| "json_roundtrip (JSymbol d i) = Returns None"
| "json_roundtrip (JBigInt n) = Throws EngineTypeError"
| "json_roundtrip JNull = Returns (Some JNull)"
| "json_roundtrip (JBool b) = Returns (Some (JBool b))"
| "json_roundtrip (JNum n) = Returns (Some (JNum n))"
| "json_roundtrip JNaN = Returns (Some JNull)"
| "json_roundtrip (JInfinity p) = Returns (Some JNull)"
| "json_roundtrip (JStr s) = Returns (Some (JStr s))"
| "json_roundtrip (JArr xs) = andThen (json_elems xs) (\<lambda>ys. Returns (Some (JArr ys)))"
| "json_roundtrip (JObj kvs) =
     (if has_toJSON kvs then Unmodelled
      else andThen (json_props kvs) (\<lambda>ps. Returns (Some (JObj ps))))"
| "json_elems [] = Returns []"
| "json_elems (x # xs) =
     andThen (json_roundtrip x) (\<lambda>r.
     andThen (json_elems xs) (\<lambda>ys.
       Returns ((case r of None \<Rightarrow> JNull | Some y \<Rightarrow> y) # ys)))"
| "json_props [] = Returns []"
| "json_props ((k, v) # kvs) =
     andThen (json_roundtrip v) (\<lambda>r.
     andThen (json_props kvs) (\<lambda>ps.
       Returns (case r of None \<Rightarrow> ps | Some y \<Rightarrow> (k, y) # ps)))"

text \<open>
  \<open>try { item = JSON.parse(JSON.stringify(item)) } catch {}\<close> on an item that is an
  object: the copy, or the item itself when \<open>JSON.stringify\<close> throws.
\<close>

definition try_json :: "jsobj \<Rightarrow> jsobj outcome" where
  "try_json item =
     (case json_roundtrip (JObj item) of
        Returns r \<Rightarrow> (case r of Some (JObj copy) \<Rightarrow> Returns copy | _ \<Rightarrow> Returns item)
      | Throws e \<Rightarrow> Returns item
      | Unmodelled \<Rightarrow> Unmodelled)"

definition skipFields :: "string list" where
  "skipFields = [''note'', ''notes'', ''itemID'', ''attachments'', ''tags'', ''seeAlso'',
     ''itemType'', ''creators'', ''complete'']"

text \<open>
  One turn of the loop \<open>for (let field in item)\<close>. A property deleted before its turn
  is not visited.
\<close>

definition clean_field :: "platform \<Rightarrow> nat option \<Rightarrow> jsobj \<Rightarrow> string \<Rightarrow> jsobj" where
  "clean_field P typeID item fld =
     (if fld \<in> set skipFields then item
      else case map_of item fld of
        None \<Rightarrow> item
      | Some v \<Rightarrow>
         (case ItemFields_getID P fld of
            None \<Rightarrow> AList.delete fld item
          | Some fieldID \<Rightarrow>
              if \<not> truthy v then AList.delete fld item
              else (case ItemFields_getFieldIDFromTypeAndBase P typeID fieldID of
                      Some subfieldID \<Rightarrow>
                        if subfieldID \<noteq> fieldID
                        then AList.delete fld
                               (AList.update (ItemFields_getName P subfieldID) v item)
                        else if \<not> ItemFields_isValidForType P fieldID typeID
                             then AList.delete fld item else item
                    | None \<Rightarrow>
                        if \<not> ItemFields_isValidForType P fieldID typeID
                        then AList.delete fld item else item)))"

text \<open>
  The loop visits the properties the item has when the loop starts, in their order;
  a property added by a turn of the loop is not visited.
\<close>

definition clean_fields :: "platform \<Rightarrow> jsobj \<Rightarrow> jsobj" where
  "clean_fields P item =
     foldl (clean_field P (ItemTypes_getID P (field item ''itemType''))) item (map fst item)"

text \<open>
  The operator \<open><\<close> of the comparator: two strings are compared by their code units,
  in the lexicographic order of lists.
\<close>

definition code_units :: "string \<Rightarrow> nat list" where
  "code_units s = map of_char s"

fun js_lt :: "platform \<Rightarrow> jsval \<Rightarrow> jsval \<Rightarrow> bool" where
  "js_lt P (JStr a) (JStr b) = (code_units a < code_units b)"
| "js_lt P a b = numeric_lt P a b"

text \<open>The comparator given to \<open>sort\<close>, on two elements whose \<open>tag\<close> are primitives.\<close>

definition compare_tags :: "platform \<Rightarrow> jsval \<Rightarrow> jsval \<Rightarrow> int" where
  "compare_tags P a b =
     (if js_lt P (read_prop a ''tag'') (read_prop b ''tag'') then - 1
      else if js_lt P (read_prop b ''tag'') (read_prop a ''tag'') then 1
      else 0)"

text \<open>
  \<open>Array.prototype.sort\<close> is stable, puts \<open>undefined\<close> elements last without calling
  the comparator, and is otherwise determined by the comparator when that is consistent;
  the model is the stable insertion sort. With two elements or more to compare, every
  one of them is given to the comparator, which reads its \<open>tag\<close> and compares it. That
  throws on an element \<open>null\<close> and on a \<open>tag\<close> that is a symbol; a \<open>tag\<close> that is
  an object, an array or a function is first converted to a primitive, which is not
  modelled.
\<close>

fun insert_tag :: "platform \<Rightarrow> jsval \<Rightarrow> jsval list \<Rightarrow> jsval list" where
  "insert_tag P x [] = [x]"
| "insert_tag P x (y # ys) =
     (if compare_tags P x y > 0 then y # insert_tag P x ys else x # y # ys)"

definition converted_tag :: "jsval \<Rightarrow> bool" where
  "converted_tag t =
     (typeof (read_prop t ''tag'') = TObject \<and> read_prop t ''tag'' \<noteq> JNull
      \<or> typeof (read_prop t ''tag'') = TFunction)"

definition sort_tags :: "platform \<Rightarrow> jsval list \<Rightarrow> jsval list outcome" where
  "sort_tags P ts =
     (let defined = filter (\<lambda>t. t \<noteq> JUndefined) ts;
          undefineds = filter (\<lambda>t. t = JUndefined) ts
      in if length defined < 2 then Returns (defined @ undefineds)
         else if list_ex converted_tag defined then Unmodelled
         else if list_ex (\<lambda>t. t = JNull \<or> is_symbol (read_prop t ''tag'')) defined
         then Throws EngineTypeError
         else Returns (foldr (insert_tag P) defined [] @ undefineds))"

definition normalize_tags :: "platform \<Rightarrow> jsobj \<Rightarrow> jsobj outcome" where
  "normalize_tags P item =
     (case field item ''tags'' of
        JArr ts \<Rightarrow>
          andThen (sort_tags P (cleanTags P ts))
            (\<lambda>sorted. Returns (AList.update ''tags'' (JArr sorted) item))
      | _ \<Rightarrow> Returns item)"

text \<open>
  \<open>sanitizeItem\<close> on an item that is an object (the source: ``Item, in the format
  returned by \<open>Zotero.Item.serialize()\<close>''): the attachments, the JSON round trip, the
  loop over the fields, \<open>accessDate\<close> and the tags.
\<close>

definition sanitize_object :: "platform \<Rightarrow> jsobj \<Rightarrow> jsobj outcome" where
  "sanitize_object P item =
     andThen (clean_attachments item) (\<lambda>item1.
     andThen (try_json item1) (\<lambda>item2.
       normalize_tags P (AList.delete ''accessDate'' (clean_fields P item2))))"

text \<open>
  \<open>null\<close> and \<open>undefined\<close> throw at \<open>item.attachments\<close>. The JSON round trip
  turns \<open>NaN\<close> and the infinities into \<open>null\<close>, on which \<open>item.itemType\<close>
  throws. An integer, a boolean, a BigInt, a symbol or a function has none of the
  properties that \<open>sanitizeItem\<close> reads and no enumerable property, and its JSON
  round trip returns it, or fails and is undone by the \<open>catch\<close>: it is returned as
  it is. An item that is an array or a string is not covered: the loop deletes array
  elements, which leaves holes the value type does not have.
\<close>

fun sanitizeItem :: "platform \<Rightarrow> jsval \<Rightarrow> jsval outcome" where
  "sanitizeItem P (JObj item) = andThen (sanitize_object P item) (\<lambda>r. Returns (JObj r))"
| "sanitizeItem P JUndefined = Throws EngineTypeError"
| "sanitizeItem P JNull = Throws EngineTypeError"
| "sanitizeItem P JNaN = Throws EngineTypeError"
| "sanitizeItem P (JInfinity p) = Throws EngineTypeError"
| "sanitizeItem P (JArr xs) = Unmodelled"
| "sanitizeItem P (JStr s) = Unmodelled"
| "sanitizeItem P v = Returns v"

section \<open>The Test Case: class \<open>Test\<close> (test.mjs)\<close>

text \<open>
  The private fields of a \<open>Test\<close>; each is \<open>undefined\<close> until its setter has run.
\<close>

record test =
  t_type :: jsval
  t_defer :: jsval
  t_input :: jsval
  t_detectedItemType :: jsval
  t_items :: jsval

definition blank_test :: test where
  "blank_test = \<lparr>t_type = JUndefined, t_defer = JUndefined, t_input = JUndefined,
     t_detectedItemType = JUndefined, t_items = JUndefined\<rparr>"

definition TEST_TYPES :: "jsval list" where
  "TEST_TYPES = [JStr ''web'', JStr ''import'', JStr ''export'', JStr ''search'']"

text \<open>
  \<open>throw new Error(`text ${v}`)\<close>: the template is evaluated first, and what its
  conversion throws is thrown in place of the error.
\<close>

definition throw_Error :: "string \<Rightarrow> jsval \<Rightarrow> string \<Rightarrow> 'a outcome" where
  "throw_Error before v after =
     andThen (to_String v) (\<lambda>s. Throws (Error (before @ s @ after)))"

definition set_type :: "jsval \<Rightarrow> test \<Rightarrow> test outcome" where
  "set_type ty t =
     (if ty \<notin> set TEST_TYPES then throw_Error ''Invalid test type: '' ty []
      else Returns (t\<lparr>t_type := ty\<rparr>))"

definition set_defer :: "jsval \<Rightarrow> test \<Rightarrow> test outcome" where
  "set_defer d t =
     (if truthy d
      then (if d \<noteq> JBool True \<and> typeof d \<noteq> TNumber
            then throw_Error ''Invalid defer: '' d []
            else Returns (t\<lparr>t_defer := d\<rparr>))
      else Returns (t\<lparr>t_defer := JUndefined\<rparr>))"

definition set_input :: "jsval \<Rightarrow> test \<Rightarrow> test outcome" where
  "set_input inp t =
     (let expectedType =
            (if t_type t = JStr ''web'' \<or> t_type t = JStr ''import'' then TString else TObject)
      in if typeof inp \<noteq> expectedType
         then throw_Error [] (t_type t) '' test input must be a string''
         else Returns (t\<lparr>t_input := inp\<rparr>))"

definition get_url :: "test \<Rightarrow> jsval outcome" where
  "get_url t =
     (if t_type t \<noteq> JStr ''web'' then throw_Error [] (t_type t) '' test has no url''
      else Returns (t_input t))"

definition set_url :: "jsval \<Rightarrow> test \<Rightarrow> test outcome" where
  "set_url url t =
     (if t_type t \<noteq> JStr ''web'' then throw_Error [] (t_type t) '' test has no url''
      else Returns (t\<lparr>t_input := url\<rparr>))"

definition set_detectedItemType :: "jsval \<Rightarrow> test \<Rightarrow> test outcome" where
  "set_detectedItemType d t =
     (if d \<noteq> JUndefined \<and> typeof d \<noteq> TString \<and> typeof d \<noteq> TBoolean
      then Throws (Error ''detectedItemType must be a string or boolean'')
      else Returns (t\<lparr>t_detectedItemType := d\<rparr>))"

definition set_items :: "platform \<Rightarrow> jsval \<Rightarrow> test \<Rightarrow> test outcome" where
  "set_items P its t =
     (case its of
        JArr xs \<Rightarrow>
          andThen (map_outcome (sanitizeItem P) xs) (\<lambda>ys. Returns (t\<lparr>t_items := JArr ys\<rparr>))
      | _ \<Rightarrow>
          if its \<noteq> JStr ''multiple''
          then Throws (Error (''items must be an array or '' @ [CHR 0x22] @ ''multiple'' @ [CHR 0x22]))
          else Returns (t\<lparr>t_items := its\<rparr>))"

text \<open>
  \<open>_inferItemType\<close>. \<open>this._items.length\<close> and \<open>this._items[0].itemType\<close> throw on
  \<open>null\<close> and \<open>undefined\<close>.
\<close>

definition inferItemType :: "test \<Rightarrow> jsval outcome" where
  "inferItemType t =
     (if t_type t \<noteq> JStr ''web''
      then andThen (get_prop (t_items t) ''length'') (\<lambda>len. Returns (JBool (truthy len)))
      else if t_items t = JStr ''multiple'' then Returns (JStr ''multiple'')
      else andThen (get_prop (t_items t) ''length'')
             (\<lambda>len. if truthy len
                     then andThen (get_prop (t_items t) ''0'') (\<lambda>first. get_prop first ''itemType'')
                     else Returns (JBool False)))"

text \<open>
  \<open>toJSON\<close>. The stored \<open>detectedItemType\<close> is compared with the inferred one only
  when it is truthy. \<open>===\<close> is equality of values here: the stored value is a
  string, a boolean or \<open>undefined\<close> whenever it went through its setter, and a
  truthy value is not \<open>NaN\<close>.
\<close>

definition toJSON :: "test \<Rightarrow> jsval outcome" where
  "toJSON t =
     andThen
       (if truthy (t_detectedItemType t)
        then andThen (inferItemType t)
               (\<lambda>inferred. Returns (if t_detectedItemType t = inferred then JUndefined
                                     else t_detectedItemType t))
        else Returns (t_detectedItemType t))
       (\<lambda>d. Returns (JObj
          [(''type'', t_type t),
           (''defer'', t_defer t),
           (if t_type t = JStr ''web'' then ''url'' else ''input'', t_input t),
           (''detectedItemType'', d),
           (''items'', t_items t)]))"

text \<open>
  The constructor, from a configuration object. \<open>testInit.input ?? testInit.url\<close> and
  \<open>testInit.detectedItemType ?? this._inferItemType()\<close> evaluate their right operand
  only when the left one is \<open>null\<close> or \<open>undefined\<close>.
\<close>

definition new_Test :: "platform \<Rightarrow> jsval \<Rightarrow> test outcome" where
  "new_Test P testInit =
     andThen (get_prop testInit ''type'') (\<lambda>ty.
     andThen (set_type ty blank_test) (\<lambda>t1.
     andThen (set_defer (nullish (read_prop testInit ''defer'') (JBool False)) t1) (\<lambda>t2.
     andThen (set_input (nullish (read_prop testInit ''input'') (read_prop testInit ''url'')) t2)
       (\<lambda>t3.
     andThen (set_items P (read_prop testInit ''items'') t3) (\<lambda>t4.
     andThen (if read_prop testInit ''detectedItemType'' = JUndefined
                 \<or> read_prop testInit ''detectedItemType'' = JNull
              then inferItemType t4
              else Returns (read_prop testInit ''detectedItemType''))
       (\<lambda>d. set_detectedItemType d t4))))))"

text \<open>The constructor, from another \<open>Test\<close>: \<open>testInit = testInit.toJSON()\<close> first.\<close>

definition clone_Test :: "platform \<Rightarrow> test \<Rightarrow> test outcome" where
  "clone_Test P t = andThen (toJSON t) (new_Test P)"

section \<open>Equality of Test Cases: \<open>deepEqual\<close> and \<open>Test.equals\<close> (test.mjs)\<close>

text \<open>
  \<open>deepEqual(a, b)\<close>. The first condition of the source,
  \<open>(typeof a === 'object' && a !== null || typeof a === 'function')
  && (typeof a === 'object' && b !== null || typeof b === 'function')\<close>,
  holds when \<open>a\<close> is an object or an array and \<open>b\<close> is not \<open>null\<close>, and when both
  are functions: its second half tests the type of \<open>a\<close>, not of \<open>b\<close>, so with an
  object on the left \<open>b\<close> may be a primitive or \<open>undefined\<close>. The two loops then
  call \<open>a.hasOwnProperty(key)\<close> and \<open>b.hasOwnProperty(key)\<close> as methods of the two
  values. A function has no enumerable property, so two functions are found equal.

  When both are arrays, the keys are the indices and no call of \<open>hasOwnProperty\<close>
  throws: the first loop asks that every index of \<open>a\<close> is one of \<open>b\<close> with equal
  elements, the second that every index of \<open>b\<close> is one of \<open>a\<close>. The last line
  \<open>a === b\<close> is reached only with a primitive on one side.
\<close>

text \<open>The second loop: \<open>for (let key in b)\<close>.\<close>

fun own_keys_in :: "jsval \<Rightarrow> jsval \<Rightarrow> string list \<Rightarrow> bool outcome" where
  "own_keys_in b a [] = Returns True"
| "own_keys_in b a (k # ks) =
     andThen (hasOwnProperty b k) (\<lambda>mine.
       if \<not> mine then own_keys_in b a ks
       else andThen (hasOwnProperty a k) (\<lambda>theirs.
         if \<not> theirs then Returns False else own_keys_in b a ks))"

fun deepEqual :: "platform \<Rightarrow> jsval \<Rightarrow> jsval \<Rightarrow> bool outcome"
  and deepEqual_props :: "platform \<Rightarrow> jsval \<Rightarrow> jsobj \<Rightarrow> jsval \<Rightarrow> bool outcome"
  and deepEqual_elems :: "platform \<Rightarrow> jsval list \<Rightarrow> jsval list \<Rightarrow> bool outcome" where
  "deepEqual P (JObj kvs) b =
     (if b = JNull then Returns False
      else if isArray b then Returns False
      else andThen (deepEqual_props P (JObj kvs) kvs b)
             (\<lambda>same. if same then own_keys_in b (JObj kvs) (map fst (enum_props b))
                     else Returns False))"
| "deepEqual P (JArr xs) b =
     (case b of
        JArr ys \<Rightarrow>
          andThen (deepEqual_elems P xs ys) (\<lambda>same. Returns (same \<and> length ys \<le> length xs))
      | _ \<Rightarrow> Returns False)"
| "deepEqual P (JFunction n a s) b = Returns (is_function b)"
| "deepEqual P (JStr x) b =
     (case b of
        JStr y \<Rightarrow> Returns (x = y \<or> trimInternal P x = trimInternal P y)
      | _ \<Rightarrow> Returns False)"
| "deepEqual P a b = Returns (strict_equal a b)"
| "deepEqual_props P a [] b = Returns True"
| "deepEqual_props P a ((k, v) # kvs) b =
     andThen (hasOwnProperty a k) (\<lambda>mine.
       if \<not> mine then deepEqual_props P a kvs b
       else andThen (hasOwnProperty b k) (\<lambda>theirs.
         if \<not> theirs then Returns False
         else andThen (deepEqual P v (read_prop b k))
                (\<lambda>same. if same then deepEqual_props P a kvs b else Returns False)))"
| "deepEqual_elems P [] ys = Returns True"
| "deepEqual_elems P (x # xs) [] = Returns False"
| "deepEqual_elems P (x # xs) (y # ys) =
     andThen (deepEqual P x y)
       (\<lambda>same. if same then deepEqual_elems P xs ys else Returns False)"

definition equals :: "platform \<Rightarrow> test \<Rightarrow> test \<Rightarrow> bool outcome" where
  "equals P t u = andThen (toJSON t) (\<lambda>a. andThen (toJSON u) (\<lambda>b. deepEqual P a b))"

section \<open>The runner: class \<open>TranslatorTester\<close>\<close>

text \<open>
  The result of one extraction attempt, \<open>{ detectedItemType, items, reason }\<close>; a
  property that is absent reads as \<open>undefined\<close>.
\<close>

record collected =
  r_detectedItemType :: jsval
  r_items :: jsval
  r_reason :: jsval

text \<open>
  The collaborators of a run are outside the sources at hand: the web translation
  environment (\<open>fetchPage\<close>, \<open>waitForLoad\<close>, \<open>runTranslation\<close>, \<open>destroy\<close>) and the
  translation engine of the import and search path (its set-up, \<open>_detect\<close> and
  \<open>translate\<close>). Each call returns (\<open>Inr\<close>) or throws (\<open>Inl\<close>). A page is an
  opaque handle. \<open>runTranslation\<close> answers with the number of times it called the
  \<open>select\<close> handler, which is what the counter \<open>numSelectItemsCalls\<close> holds at the
  end, and with its result. The timer of \<open>run\<close> acts through the abort signal only,
  that is through what these calls answer; time itself, and the pause of a deferred
  test, are not modelled.
\<close>

record environment =
  fetchPage :: "jsval \<Rightarrow> error + nat"
  waitForLoad :: "nat \<Rightarrow> error + bool"
  runTranslation :: "nat \<Rightarrow> error + nat \<times> collected"
  destroy :: "nat \<Rightarrow> error + unit"
  setUp :: "test \<Rightarrow> error + unit"
  detect :: "test \<Rightarrow> error + jsval"
  translate :: "test \<Rightarrow> error + jsval"

fun call :: "error + 'a \<Rightarrow> 'a outcome" where
  "call (Inr x) = Returns x"
| "call (Inl e) = Throws e"

text \<open>\<open>try { body } finally { await destroy(page) }\<close>: a throw of \<open>destroy\<close> wins.\<close>

definition try_finally :: "'a outcome \<Rightarrow> unit outcome \<Rightarrow> 'a outcome" where
  "try_finally body cleanup = (case cleanup of Returns _ \<Rightarrow> body | Throws e \<Rightarrow> Throws e
     | Unmodelled \<Rightarrow> Unmodelled)"

text \<open>\<open>items?.length\<close>.\<close>

definition optional_length :: "jsval \<Rightarrow> jsval" where
  "optional_length v = (if v = JUndefined \<or> v = JNull then JUndefined else read_prop v ''length'')"

text \<open>The decisions of \<open>_translateWeb\<close> once \<open>runTranslation\<close> has answered.\<close>

definition collect_web :: "nat \<Rightarrow> collected \<Rightarrow> collected" where
  "collect_web numSelectItemsCalls result =
     (if \<not> truthy (r_items result) \<and> truthy (r_reason result) then result
      else if \<not> truthy (optional_length (r_items result))
      then \<lparr>r_detectedItemType = r_detectedItemType result, r_items = JNull,
             r_reason = JStr ''Translator did not return any items''\<rparr>
      else if numSelectItemsCalls > 1
      then \<lparr>r_detectedItemType = r_detectedItemType result, r_items = JNull,
             r_reason = JStr ''Translator called selectItems multiple times''\<rparr>
      else if numSelectItemsCalls \<noteq> 0
      then \<lparr>r_detectedItemType = r_detectedItemType result, r_items = JStr ''multiple'',
             r_reason = JUndefined\<rparr>
      else \<lparr>r_detectedItemType = r_detectedItemType result, r_items = r_items result,
             r_reason = JUndefined\<rparr>)"

definition translateWeb :: "environment \<Rightarrow> test \<Rightarrow> collected outcome" where
  "translateWeb env test =
     andThen (get_url test) (\<lambda>url.
     andThen (call (fetchPage env url)) (\<lambda>page.
     andThen
       (try_finally
          (andThen (call (waitForLoad env page)) (\<lambda>assumePageIsLoaded.
             call (runTranslation env page)))
          (call (destroy env page)))
       (\<lambda>(numSelectItemsCalls, result). Returns (collect_web numSelectItemsCalls result))))"

definition translateImportOrSearch :: "environment \<Rightarrow> test \<Rightarrow> collected outcome" where
  "translateImportOrSearch env test =
     andThen (call (setUp env test)) (\<lambda>_.
     andThen (call (detect env test)) (\<lambda>detectedItemType.
       if \<not> truthy detectedItemType
       then Returns \<lparr>r_detectedItemType = JUndefined, r_items = JNull,
                     r_reason = JStr ''Detection failed''\<rparr>
       else andThen (call (translate env test))
              (\<lambda>items. Returns \<lparr>r_detectedItemType = detectedItemType, r_items = items,
                                r_reason = JUndefined\<rparr>)))"

text \<open>The value \<open>run\<close> resolves to: \<open>{ status, reason?, updatedTest? }\<close>.\<close>

datatype status = Success | Failure

record run_result =
  status :: status
  reason :: "jsval option"
  updatedTest :: "test option"

text \<open>
  The updated test of \<open>run\<close>: a copy of the test, then the observed
  \<open>detectedItemType\<close> and \<open>items\<close> through their setters.
\<close>

definition build_updatedTest :: "platform \<Rightarrow> test \<Rightarrow> collected \<Rightarrow> test outcome" where
  "build_updatedTest P test result =
     andThen (clone_Test P test) (\<lambda>u0.
     andThen (set_detectedItemType (r_detectedItemType result) u0) (\<lambda>u1.
     set_items P (r_items result) u1))"

definition arity :: "jsval \<Rightarrow> string" where
  "arity its = (if its = JStr ''multiple'' then ''multiple'' else ''single item'')"

text \<open>
  The second half of \<open>run\<close>, from \<open>let { detectedItemType, items, reason } = result\<close>.
  Its two \<open>!==\<close> are inequality of values: the first is reached only after the
  observed \<open>detectedItemType\<close> went through its setter, so that it is a string, a
  boolean or \<open>undefined\<close>, the second only when one of the two \<open>items\<close> is the
  string \<open>'multiple'\<close>.
\<close>

definition classify :: "platform \<Rightarrow> test \<Rightarrow> collected \<Rightarrow> run_result outcome" where
  "classify P test result =
     (if \<not> truthy (r_items result)
      then (if \<not> truthy (r_detectedItemType result) \<and> t_detectedItemType test = JBool False
            then Returns \<lparr>status = Success, reason = None, updatedTest = None\<rparr>
            else Returns \<lparr>status = Failure, reason = Some (r_reason result), updatedTest = None\<rparr>)
      else andThen (build_updatedTest P test result) (\<lambda>updated.
        if t_detectedItemType test \<noteq> r_detectedItemType result
        then Returns \<lparr>status = Failure,
                       reason = Some (JStr ''Detection returned wrong item type''),
                       updatedTest = Some updated\<rparr>
        else if (t_items test = JStr ''multiple'' \<or> r_items result = JStr ''multiple'')
                \<and> t_items test \<noteq> r_items result
        then Returns \<lparr>status = Failure,
                       reason = Some (JStr (''Expected '' @ arity (t_items test) @ '', got ''
                                  @ arity (r_items result))),
                       updatedTest = Some updated\<rparr>
        else andThen (equals P test updated) (\<lambda>same.
          if \<not> same
          then Returns \<lparr>status = Failure, reason = Some (JStr ''Data mismatch''),
                         updatedTest = Some updated\<rparr>
          else Returns \<lparr>status = Success, reason = None, updatedTest = Some updated\<rparr>)))"

text \<open>
  \<open>run\<close>: the \<open>switch\<close> on the type of the test. What the extraction path throws is
  caught and becomes a failure with \<open>String(e)\<close> as its reason (\<open>String(e)\<close> is
  evaluated in the \<open>catch\<close> block, so what it throws is thrown by \<open>run\<close>); the
  \<open>export\<close> and the \<open>default\<close> case throw.
\<close>

definition caught :: "platform \<Rightarrow> test \<Rightarrow> collected outcome \<Rightarrow> run_result outcome" where
  "caught P test attempt =
     (case attempt of
        Throws e \<Rightarrow>
          andThen (String_of_error e)
            (\<lambda>s. Returns \<lparr>status = Failure, reason = Some (JStr s), updatedTest = None\<rparr>)
      | Returns result \<Rightarrow> classify P test result
      | Unmodelled \<Rightarrow> Unmodelled)"

definition run :: "platform \<Rightarrow> environment \<Rightarrow> test \<Rightarrow> run_result outcome" where
  "run P env test =
     (if t_type test = JStr ''web'' then caught P test (translateWeb env test)
      else if t_type test = JStr ''import'' \<or> t_type test = JStr ''search''
      then caught P test (translateImportOrSearch env test)
      else if t_type test = JStr ''export''
      then Throws (Error ''Export tests are not yet supported'')
      else throw_Error ''Unknown test type: '' (t_type test) [])"

text \<open>The attempt that \<open>run\<close> dispatches to, for the three types it supports.\<close>

definition extraction :: "environment \<Rightarrow> test \<Rightarrow> collected outcome" where
  "extraction env test =
     (if t_type test = JStr ''web'' then translateWeb env test
      else translateImportOrSearch env test)"

section \<open>Properties of Test Cases\<close>

text \<open>
  A value is in normalized form when it is what \<open>sanitizeItem\<close> returns for some raw
  record; a test keeps its items normalized when its \<open>items\<close>, if an array, holds such
  values only.
\<close>

definition normalized :: "platform \<Rightarrow> jsval \<Rightarrow> bool" where
  "normalized P v = (\<exists>raw. sanitizeItem P raw = Returns v)"

definition items_normalized :: "platform \<Rightarrow> test \<Rightarrow> bool" where
  "items_normalized P t = (\<forall>ys. t_items t = JArr ys \<longrightarrow> list_all (normalized P) ys)"

section \<open>Well-formed values and coherent platforms\<close>






text \<open>A value that \<open>JSON.stringify\<close> omits: its answer is \<open>undefined\<close>.\<close>

definition json_omits :: "jsval \<Rightarrow> bool" where
  "json_omits v = (json_roundtrip v = Returns None)"











section \<open>Concrete inputs\<close>

text \<open>
  A small platform: two item types, five fields, \<open>publisher\<close> is the base field of
  \<open>label\<close> for an audio recording. A tag given as a string, or as an object with a
  string \<open>tag\<close>, is cleaned to an object with that \<open>tag\<close> alone, any other tag is
  dropped. Strings are not trimmed.
\<close>

fun example_cleanTags :: "jsval list \<Rightarrow> jsval list" where
  "example_cleanTags [] = []"
| "example_cleanTags (JStr s # ts) = JObj [(''tag'', JStr s)] # example_cleanTags ts"
| "example_cleanTags (JObj kvs # ts) =
     (case map_of kvs ''tag'' of
        Some (JStr s) \<Rightarrow> JObj [(''tag'', JStr s)] # example_cleanTags ts
      | _ \<Rightarrow> example_cleanTags ts)"
| "example_cleanTags (t # ts) = example_cleanTags ts"

definition example_platform :: platform where
  "example_platform = \<lparr>
     ItemTypes_getID = (\<lambda>v. if v = JStr ''book'' then Some 1
                            else if v = JStr ''audioRecording'' then Some 2 else None),
     ItemFields_getID = map_of [(''title'', 1), (''publisher'', 2), (''label'', 3),
                                (''date'', 4), (''accessDate'', 5)],
     ItemFields_getFieldIDFromTypeAndBase = (\<lambda>t f. if t = Some 2 \<and> f = 2 then Some 3 else None),
     ItemFields_getName = (\<lambda>f. if f = 3 then ''label'' else ''title''),
     ItemFields_isValidForType =
       (\<lambda>f t. if f = 3 then t = Some 2 else if f = 2 then t = Some 1 else t \<noteq> None),
     cleanTags = example_cleanTags,
     trimInternal = (\<lambda>s. s),
     numeric_lt = (\<lambda>a b. False)\<rparr>"

text \<open>
  An environment in which every call returns, but for \<open>runTranslation\<close>, which does
  what \<open>answer\<close> says; detection of an import succeeds and its translation returns no
  item.
\<close>

definition example_env :: "error + nat \<times> collected \<Rightarrow> environment" where
  "example_env answer = \<lparr>
     fetchPage = (\<lambda>url. Inr 0),
     waitForLoad = (\<lambda>page. Inr True),
     runTranslation = (\<lambda>page. answer),
     destroy = (\<lambda>page. Inr ()),
     setUp = (\<lambda>test. Inr ()),
     detect = (\<lambda>test. Inr (JBool True)),
     translate = (\<lambda>test. Inr (JArr []))\<rparr>"

text \<open>A web test that expects detection to fail.\<close>

definition web_test :: test where
  "web_test = \<lparr>t_type = JStr ''web'', t_defer = JUndefined,
     t_input = JStr ''http://example.com/'', t_detectedItemType = JBool False,
     t_items = JArr []\<rparr>"

definition export_test :: test where
  "export_test = \<lparr>t_type = JStr ''export'', t_defer = JUndefined, t_input = JObj [],
     t_detectedItemType = JBool False, t_items = JArr []\<rparr>"

text \<open>A web test that expects a search page: several records, not enumerated.\<close>

definition multiple_test :: test where
  "multiple_test = \<lparr>t_type = JStr ''web'', t_defer = JUndefined,
     t_input = JStr ''http://example.com/search'', t_detectedItemType = JStr ''multiple'',
     t_items = JStr ''multiple''\<rparr>"

text \<open>A web test that expects one book.\<close>

definition book_item :: jsval where
  "book_item = JObj [(''itemType'', JStr ''book''), (''title'', JStr ''Principia'')]"

definition book_test :: test where
  "book_test = \<lparr>t_type = JStr ''web'', t_defer = JUndefined,
     t_input = JStr ''http://example.com/book'', t_detectedItemType = JStr ''book'',
     t_items = JArr [book_item]\<rparr>"

text \<open>A raw record that holds each of the nine fields of \<open>skipFields\<close>.\<close>

definition structural_item :: jsobj where
  "structural_item =
     [(''itemType'', JStr ''book''),
      (''title'', JStr ''Principia''),
      (''creators'', JArr [JObj [(''lastName'', JStr ''Newton''), (''creatorType'', JStr ''author'')]]),
      (''tags'', JArr []),
      (''notes'', JArr []),
      (''seeAlso'', JArr []),
      (''attachments'', JArr []),
      (''itemID'', JNum 1),
      (''note'', JStr ''first edition''),
      (''complete'', JBool True)]"

text \<open>A raw audio recording: its \<open>publisher\<close> is renamed, its \<open>url\<close> is no field.\<close>

definition recording_item :: jsobj where
  "recording_item =
     [(''itemType'', JStr ''audioRecording''),
      (''publisher'', JStr ''Decca''),
      (''url'', JStr ''http://example.com/''),
      (''creators'', JArr [])]"

text \<open>
  Two search tests that differ in one value of the query: an empty object in one, the
  empty string in the other.
\<close>

definition search_config_a :: jsval where
  "search_config_a = JObj [(''type'', JStr ''search''),
     (''input'', JObj [(''DOI'', JObj [])]), (''items'', JArr [])]"

definition search_config_b :: jsval where
  "search_config_b = JObj [(''type'', JStr ''search''),
     (''input'', JObj [(''DOI'', JStr [])]), (''items'', JArr [])]"

definition search_test_a :: test where
  "search_test_a = \<lparr>t_type = JStr ''search'', t_defer = JUndefined,
     t_input = JObj [(''DOI'', JObj [])], t_detectedItemType = JBool False, t_items = JArr []\<rparr>"

definition search_test_b :: test where
  "search_test_b = \<lparr>t_type = JStr ''search'', t_defer = JUndefined,
     t_input = JObj [(''DOI'', JStr [])], t_detectedItemType = JBool False, t_items = JArr []\<rparr>"

text \<open>The configuration of a web test that expects one book.\<close>

definition book_config :: jsval where
  "book_config = JObj [(''type'', JStr ''web''), (''url'', JStr ''http://example.com/book''),
     (''items'', JArr [JObj [(''itemType'', JStr ''book''), (''title'', JStr ''Principia''),
        (''libraryCatalog'', JStr ''Example''), (''accessDate'', JStr ''2024-01-01'')]])]"





text \<open>
  A search test configured with \<open>url: null\<close> and no \<open>input\<close>: the setter of \<open>input\<close>
  accepts \<open>null\<close>, whose type is \<open>'object'\<close>.
\<close>

definition null_url_config :: jsval where
  "null_url_config = JObj [(''type'', JStr ''search''), (''url'', JNull), (''items'', JArr [])]"

definition null_input_test :: test where
  "null_input_test = \<lparr>t_type = JStr ''search'', t_defer = JUndefined, t_input = JNull,
     t_detectedItemType = JBool False, t_items = JArr []\<rparr>"

text \<open>
  An environment in which every call returns: detection gives \<open>detected\<close> and the
  translation gives \<open>items\<close>, on the web path (without a call of the selection
  handler) as on the import and search path.
\<close>

definition records_env :: "jsval \<Rightarrow> jsval \<Rightarrow> environment" where
  "records_env detected items = \<lparr>
     fetchPage = (\<lambda>url. Inr 0),
     waitForLoad = (\<lambda>page. Inr True),
     runTranslation = (\<lambda>page. Inr (0, \<lparr>r_detectedItemType = detected, r_items = items,
                                        r_reason = JUndefined\<rparr>)),
     destroy = (\<lambda>page. Inr ()),
     setUp = (\<lambda>test. Inr ()),
     detect = (\<lambda>test. Inr detected),
     translate = (\<lambda>test. Inr items)\<rparr>"





text \<open>A raw book with a method \<open>complete\<close>.\<close>

definition method_item :: jsobj where
  "method_item = [(''itemType'', JStr ''book''),
     (''complete'', JFunction ''complete'' 0 ''complete() {}'')]"





section \<open>Auxiliary facts\<close>

lemma andThen_Returns:
  "andThen m f = Returns y \<longleftrightarrow> (\<exists>x. m = Returns x \<and> f x = Returns y)"
  by (cases m) auto

lemma dec_0: "dec 0 = ''0''"
  by code_simp

lemmas test_defs =
  new_Test_def clone_Test_def toJSON_def inferItemType_def get_prop_def read_prop_def
  set_type_def set_defer_def set_input_def set_items_def set_detectedItemType_def
  TEST_TYPES_def blank_test_def throw_Error_def dec_0

lemmas sanitize_defs =
  sanitize_object_def clean_attachments_def clean_fields_def clean_field_def
  normalize_tags_def sort_tags_def skipFields_def field_def read_prop_def try_json_def

lemmas run_defs =
  run_def caught_def classify_def build_updatedTest_def translateWeb_def
  translateImportOrSearch_def collect_web_def optional_length_def try_finally_def
  get_url_def equals_def arity_def

lemma dec_digits: "set (dec n) \<subseteq> digit ` {0..<10}"
proof (induction n rule: dec.induct)
  case (1 n)
  show ?case
  proof (cases "n < 10")
    case True
    then show ?thesis by (subst dec.simps) auto
  next
    case False
    with 1 have "set (dec (n div 10)) \<subseteq> digit ` {0..<10}" by simp
    moreover have "n mod 10 \<in> {0..<10}" by simp
    ultimately show ?thesis using False by (subst dec.simps) auto
  qed
qed

lemma dec_not_length: "dec n \<noteq> ''length''"
proof
  assume "dec n = ''length''"
  then have "CHR ''l'' \<in> set (dec n)" by simp
  with dec_digits have "CHR ''l'' \<in> digit ` {0..<10}" by blast
  then obtain d where "d < 10" "CHR ''l'' = digit d" by auto
  then show False by (auto simp add: less_Suc_eq numeral_eq_Suc; code_simp)
qed

lemma length_not_index: "map_of (zip (map dec [0..<n]) xs) ''length'' = None"
  by (auto simp add: map_of_eq_None_iff dec_not_length [symmetric] dest!: set_zip_leftD)

lemma read_prop_length: "read_prop (JArr xs) ''length'' = JNum (int (length xs))"
  by (simp add: read_prop_def map_add_def length_not_index)

lemma read_prop_length_string: "read_prop (JStr s) ''length'' = JNum (int (length s))"
  by (simp add: read_prop_def map_add_def length_not_index)


text \<open>The fields of \<open>skipFields\<close> survive each step of \<open>sanitizeItem\<close>.\<close>

lemma present_json_props:
  "json_props item = Returns copy \<Longrightarrow> map_of item k = Some v \<Longrightarrow>
   json_roundtrip v \<noteq> Returns None \<Longrightarrow> map_of copy k \<noteq> None"
proof (induction item arbitrary: copy)
  case Nil
  then show ?case by simp
next
  case (Cons p item)
  obtain k' v' where p: "p = (k', v')" by (cases p)
  from Cons.prems(1) obtain r ps where
    r: "json_roundtrip v' = Returns r" and ps: "json_props item = Returns ps" and
    c: "copy = (case r of None \<Rightarrow> ps | Some y \<Rightarrow> (k', y) # ps)"
    by (auto simp add: p andThen_Returns)
  show ?case
  proof (cases "k' = k")
    case True
    with Cons.prems(2) have "v' = v" by (simp add: p)
    with r Cons.prems(3) obtain y where "r = Some y" by (cases r) auto
    then show ?thesis by (simp add: c True)
  next
    case False
    with Cons.prems(2) have "map_of item k = Some v" by (simp add: p)
    with ps have "map_of ps k \<noteq> None" using Cons.prems(3) by (rule Cons.IH)
    then show ?thesis using False by (cases r) (simp_all add: c)
  qed
qed

lemma try_json_cases:
  assumes "try_json item = Returns item2"
  shows "item2 = item \<or> json_props item = Returns item2"
  using assms
  by (auto simp add: try_json_def andThen_Returns
      split: outcome.splits option.splits jsval.splits if_splits)

lemma present_try_json:
  assumes "try_json item = Returns item2" and "map_of item k = Some v"
    and "json_roundtrip v \<noteq> Returns None"
  shows "map_of item2 k \<noteq> None"
  using try_json_cases [OF assms(1)] assms(2,3) by (auto dest: present_json_props)

lemma present_clean_field:
  "k \<in> set skipFields \<Longrightarrow> map_of item k \<noteq> None \<Longrightarrow> map_of (clean_field P t item f) k \<noteq> None"
  by (auto simp add: clean_field_def update_conv' delete_conv' split: option.splits)

lemma present_foldl_clean_field:
  "k \<in> set skipFields \<Longrightarrow> map_of item k \<noteq> None \<Longrightarrow>
   map_of (foldl (clean_field P t) item fs) k \<noteq> None"
proof (induction fs arbitrary: item)
  case Nil
  then show ?case by simp
next
  case (Cons f fs)
  from Cons.prems have "map_of (clean_field P t item f) k \<noteq> None"
    by (rule present_clean_field)
  with Cons.prems(1) have "map_of (foldl (clean_field P t) (clean_field P t item f) fs) k \<noteq> None"
    by (rule Cons.IH)
  then show ?case by simp
qed

lemma present_clean_attachments:
  assumes "clean_attachments item = Returns item1" and "json_roundtrip (field item k) \<noteq> Returns None"
  shows "json_roundtrip (field item1 k) \<noteq> Returns None"
  using assms
  by (auto simp add: clean_attachments_def Let_def andThen_Returns field_def update_conv'
      split: if_splits jsval.splits outcome.splits)

lemma present_normalize_tags:
  "normalize_tags P item = Returns out \<Longrightarrow> map_of item k \<noteq> None \<Longrightarrow> map_of out k \<noteq> None"
  by (auto simp add: normalize_tags_def andThen_Returns update_conv' split: jsval.splits)

lemma skip_field_kept:
  assumes "sanitize_object P item = Returns out"
    and "k \<in> set skipFields"
    and "json_roundtrip (field item k) \<noteq> Returns None"
  shows "map_of out k \<noteq> None"
proof -
  from assms(1) obtain item1 item2 where
    a: "clean_attachments item = Returns item1" and
    j: "try_json item1 = Returns item2" and
    t: "normalize_tags P (AList.delete ''accessDate'' (clean_fields P item2)) = Returns out"
    by (auto simp add: sanitize_object_def andThen_Returns)
  from present_clean_attachments [OF a assms(3)]
  have n: "json_roundtrip (field item1 k) \<noteq> Returns None" .
  then obtain v where v: "map_of item1 k = Some v" "json_roundtrip v \<noteq> Returns None"
    by (cases "map_of item1 k") (auto simp add: field_def)
  with j have "map_of item2 k \<noteq> None" by (rule present_try_json)
  with assms(2) have "map_of (clean_fields P item2) k \<noteq> None"
    by (simp add: clean_fields_def present_foldl_clean_field)
  moreover from assms(2) have "k \<noteq> ''accessDate''" by (auto simp add: skipFields_def)
  ultimately have
    "map_of (AList.delete ''accessDate'' (clean_fields P item2)) k \<noteq> None"
    by (simp add: delete_conv')
  with t show ?thesis by (rule present_normalize_tags)
qed

lemma sanitize_recording_item:
  "sanitizeItem example_platform (JObj recording_item) =
     Returns (JObj [(''itemType'', JStr ''audioRecording''), (''creators'', JArr []),
                    (''label'', JStr ''Decca'')])"
  by code_simp

section \<open>The runner never lets a fault escape? (C1)\<close>

text \<open>
  C1, as stated, fails: \<open>run\<close> on an export test does not return a failure result, it
  throws \<open>Error('Export tests are not yet supported')\<close> (the promise is rejected).
\<close>

theorem export_throws_counterexample:
  "run example_platform (example_env (Inl (Error ''unused''))) export_test =
     Throws (Error ''Export tests are not yet supported'')"
  by (simp add: run_def export_test_def)

text \<open>
  C1, amended. For a test of one of the four types: on an export test \<open>run\<close> throws
  the error ``Export tests are not yet supported''; on a web, import or search test,
  whatever the extraction path throws is caught and returned as a failure whose reason
  is \<open>String(e)\<close>, for every thrown value \<open>e\<close> on which \<open>String(e)\<close> returns, and
  when the extraction returns without records \<open>run\<close> returns a result without an
  updated test.
\<close>

theorem run_outcomes:
  assumes "t_type test \<in> set TEST_TYPES"
  shows "if t_type test = JStr ''export''
         then run P env test = Throws (Error ''Export tests are not yet supported'')
         else (\<forall>e s. extraction env test = Throws e \<and> String_of_error e = Returns s \<longrightarrow>
                 run P env test = Returns \<lparr>status = Failure,
                   reason = Some (JStr s), updatedTest = None\<rparr>)
            \<and> (\<forall>r. extraction env test = Returns r \<and> \<not> truthy (r_items r) \<longrightarrow>
                 (\<exists>res. run P env test = Returns res \<and> updatedTest res = None))"
  using assms by (auto simp add: run_def extraction_def TEST_TYPES_def caught_def classify_def)

theorem run_outcomes_witness:
  "t_type web_test \<in> set TEST_TYPES
   \<and> extraction (example_env (Inl (Error ''Test timed out after 15 seconds''))) web_test =
       Throws (Error ''Test timed out after 15 seconds'')
   \<and> run example_platform (example_env (Inl (Error ''Test timed out after 15 seconds''))) web_test =
       Returns \<lparr>status = Failure,
         reason = Some (JStr ''Error: Test timed out after 15 seconds''), updatedTest = None\<rparr>"
proof -
  have a: "t_type web_test \<in> set TEST_TYPES" by (simp add: web_test_def TEST_TYPES_def)
  have b: "extraction (example_env (Inl (Error ''Test timed out after 15 seconds''))) web_test =
       Throws (Error ''Test timed out after 15 seconds'')"
    by (simp add: extraction_def run_defs web_test_def example_env_def)
  have c: "t_type web_test \<noteq> JStr ''export''" by (simp add: web_test_def)
  have d: "String_of_error (Error ''Test timed out after 15 seconds'') =
      Returns ''Error: Test timed out after 15 seconds''" by simp
  from run_outcomes [OF a, of example_platform
      "example_env (Inl (Error ''Test timed out after 15 seconds''))"] a b c d
  show ?thesis by simp
qed

section \<open>The selection handler called more than once (C2)\<close>

text \<open>
  C2, as stated, fails: with two calls of the selection handler and an empty list of
  records, the collected reason is ``Translator did not return any items''; the
  checks for missing records come before the check of the counter.
\<close>

theorem select_twice_no_records_counterexample:
  "translateWeb (example_env (Inr (2, \<lparr>r_detectedItemType = JStr ''multiple'', r_items = JArr [],
       r_reason = JUndefined\<rparr>))) multiple_test =
   Returns \<lparr>r_detectedItemType = JStr ''multiple'', r_items = JNull,
       r_reason = JStr ''Translator did not return any items''\<rparr>"
  by (simp add: run_defs example_env_def multiple_test_def read_prop_def)

text \<open>
  C2, amended. In a web-test run in which the selection handler was called more than
  once, the collected result has no items; its reason is ``Translator called
  selectItems multiple times'' when the extraction produced a non-empty list of
  records, and otherwise the reason of the missing records: the one the extraction
  gave, or ``Translator did not return any items''.
\<close>

theorem select_twice:
  assumes "t_type test = JStr ''web''"
    and "fetchPage env (t_input test) = Inr page"
    and "waitForLoad env page = Inr loaded"
    and "runTranslation env page = Inr (n, result)"
    and "destroy env page = Inr ()"
    and "1 < n"
  shows "translateWeb env test = Returns
     (if \<not> truthy (r_items result) \<and> truthy (r_reason result) then result
      else if \<not> truthy (optional_length (r_items result))
      then \<lparr>r_detectedItemType = r_detectedItemType result, r_items = JNull,
             r_reason = JStr ''Translator did not return any items''\<rparr>
      else \<lparr>r_detectedItemType = r_detectedItemType result, r_items = JNull,
             r_reason = JStr ''Translator called selectItems multiple times''\<rparr>)"
  using assms by (simp add: translateWeb_def get_url_def try_finally_def collect_web_def)

theorem select_twice_witness:
  "translateWeb (example_env (Inr (2, \<lparr>r_detectedItemType = JStr ''multiple'',
       r_items = JArr [book_item, book_item], r_reason = JUndefined\<rparr>))) multiple_test =
   Returns \<lparr>r_detectedItemType = JStr ''multiple'', r_items = JNull,
       r_reason = JStr ''Translator called selectItems multiple times''\<rparr>"
  using select_twice [of multiple_test "example_env (Inr (2, \<lparr>r_detectedItemType = JStr ''multiple'',
       r_items = JArr [book_item, book_item], r_reason = JUndefined\<rparr>))" 0 True 2
       "\<lparr>r_detectedItemType = JStr ''multiple'',
       r_items = JArr [book_item, book_item], r_reason = JUndefined\<rparr>"]
  by (simp add: example_env_def multiple_test_def optional_length_def read_prop_length)

section \<open>The structural fields and the normalizer (C3)\<close>

text \<open>
  C3, as stated, fails: the nine fields named in \<open>skipFields\<close> are the ones the loop
  over the fields passes over, so they are kept. A record that holds all nine is
  returned with all nine.
\<close>

theorem skip_fields_deleted_counterexample:
  "sanitizeItem example_platform (JObj structural_item) = Returns (JObj structural_item)
   \<and> list_all (owns (JObj structural_item)) skipFields"
  by code_simp

text \<open>
  A structural field is not kept whatever its value: the JSON round trip drops a
  property whose value is a function (or a symbol, or \<open>undefined\<close>), here the method
  \<open>complete\<close>.
\<close>

lemma method_dropped:
  "sanitizeItem example_platform (JObj method_item) = Returns (JObj [(''itemType'', JStr ''book'')])"
  by code_simp

text \<open>
  C3, amended. The normalizer keeps the structural fields: each of \<open>note\<close>, \<open>notes\<close>,
  \<open>itemID\<close>, \<open>attachments\<close>, \<open>tags\<close>, \<open>seeAlso\<close>, \<open>itemType\<close>, \<open>creators\<close> and
  \<open>complete\<close> that the raw record holds with a value that \<open>JSON.stringify\<close> does not
  omit (it omits \<open>undefined\<close>, a function and a symbol) is a property of the
  normalized record.
\<close>

theorem skip_fields_retained:
  assumes "sanitizeItem P (JObj item) = Returns out"
    and "k \<in> set skipFields"
    and "\<not> json_omits (field item k)"
  shows "owns out k"
proof -
  from assms(1) obtain r where r: "sanitize_object P item = Returns r" and out: "out = JObj r"
    by (auto simp add: andThen_Returns)
  from assms(3) have "json_roundtrip (field item k) \<noteq> Returns None"
    by (simp add: json_omits_def)
  with r assms(2) have "map_of r k \<noteq> None" by (rule skip_field_kept)
  then show ?thesis by (simp add: out owns_def)
qed

theorem skip_fields_retained_witness:
  "sanitizeItem example_platform (JObj recording_item) =
     Returns (JObj [(''itemType'', JStr ''audioRecording''), (''creators'', JArr []),
                    (''label'', JStr ''Decca'')])
   \<and> ''creators'' \<in> set skipFields
   \<and> \<not> json_omits (field recording_item ''creators'')
   \<and> owns (JObj [(''itemType'', JStr ''audioRecording''), (''creators'', JArr []),
                    (''label'', JStr ''Decca'')]) ''creators''"
proof -
  have a: "''creators'' \<in> set skipFields" by (simp add: skipFields_def)
  have b: "\<not> json_omits (field recording_item ''creators'')"
    by (simp add: json_omits_def field_def recording_item_def)
  from skip_fields_retained [OF sanitize_recording_item a b] sanitize_recording_item a b
  show ?thesis by simp
qed

section \<open>Serialization and the inferred item type (C4)\<close>

text \<open>
  C4, as stated, fails: a stored \<open>detectedItemType\<close> of \<open>false\<close> equal to the
  inferred \<open>false\<close> is serialized as \<open>false\<close>, not omitted. The comparison with the
  inferred type is guarded by the truthiness of the stored value.
\<close>

theorem false_not_omitted_counterexample:
  "new_Test example_platform (JObj [(''type'', JStr ''web''), (''url'', JStr ''http://example.com/''),
       (''detectedItemType'', JBool False), (''items'', JArr [])]) = Returns web_test
   \<and> inferItemType web_test = Returns (JBool False)
   \<and> toJSON web_test = Returns (JObj [(''type'', JStr ''web''), (''defer'', JUndefined),
       (''url'', JStr ''http://example.com/''), (''detectedItemType'', JBool False),
       (''items'', JArr [])])"
  by code_simp

text \<open>
  C4, amended. Serialization omits \<open>detectedItemType\<close> (its value is \<open>undefined\<close>)
  exactly when the stored value is truthy and equals the value inferred from
  \<open>items\<close>; any other stored value, \<open>false\<close> included, is serialized as it is.
\<close>

theorem detectedItemType_omitted:
  assumes "inferItemType t = Returns inferred"
  shows "\<exists>j. toJSON t = Returns (JObj j) \<and> field j ''detectedItemType'' =
     (if truthy (t_detectedItemType t) \<and> t_detectedItemType t = inferred then JUndefined
      else t_detectedItemType t)"
  using assms by (auto simp add: toJSON_def field_def)

theorem detectedItemType_omitted_witness:
  "inferItemType book_test = Returns (JStr ''book'')
   \<and> (\<exists>j. toJSON book_test = Returns (JObj j) \<and> field j ''detectedItemType'' = JUndefined)"
proof -
  have a: "inferItemType book_test = Returns (JStr ''book'')" by code_simp
  have b: "t_detectedItemType book_test = JStr ''book''" by (simp add: book_test_def)
  from detectedItemType_omitted [OF a] a b show ?thesis by simp
qed

section \<open>A wrong detected item type comes first (C8)\<close>

text \<open>
  In a run whose extraction returned records, \<open>run\<close> first builds the updated test: a
  copy of the test, made by the constructor from its serialized form, and the observed
  \<open>detectedItemType\<close> and \<open>items\<close> through their setters. When that is built, an
  observed \<open>detectedItemType\<close> that differs from the expected one makes the outcome
  the failure ``Detection returned wrong item type'', with the updated test; neither
  the arity of \<open>items\<close> nor the equality of the tests is looked at.
\<close>

lemma wrong_item_type_first:
  assumes "t_type test \<in> {JStr ''web'', JStr ''import'', JStr ''search''}"
    and "extraction env test = Returns r"
    and "truthy (r_items r)"
    and "build_updatedTest P test r = Returns updated"
    and "t_detectedItemType test \<noteq> r_detectedItemType r"
  shows "run P env test = Returns \<lparr>status = Failure,
           reason = Some (JStr ''Detection returned wrong item type''),
           updatedTest = Some updated\<rparr>"
  using assms by (auto simp add: run_def extraction_def caught_def classify_def)

lemma wrong_item_type_first_example:
  "run example_platform
     (example_env (Inr (1, \<lparr>r_detectedItemType = JStr ''book'',
        r_items = JArr [book_item, book_item], r_reason = JUndefined\<rparr>))) multiple_test =
   Returns \<lparr>status = Failure,
           reason = Some (JStr ''Detection returned wrong item type''),
           updatedTest = Some (multiple_test\<lparr>t_detectedItemType := JStr ''book''\<rparr>)\<rparr>"
proof -
  let ?env = "example_env (Inr (1, \<lparr>r_detectedItemType = JStr ''book'',
        r_items = JArr [book_item, book_item], r_reason = JUndefined\<rparr>))"
  let ?r = "\<lparr>r_detectedItemType = JStr ''book'', r_items = JStr ''multiple'',
        r_reason = JUndefined\<rparr>"
  have a: "t_type multiple_test \<in> {JStr ''web'', JStr ''import'', JStr ''search''}"
    by (simp add: multiple_test_def)
  have b: "extraction ?env multiple_test = Returns ?r"
    by (simp add: extraction_def run_defs multiple_test_def example_env_def read_prop_length)
  have c: "truthy (r_items ?r)" by simp
  have d: "build_updatedTest example_platform multiple_test ?r =
      Returns (multiple_test\<lparr>t_detectedItemType := JStr ''book''\<rparr>)"
    by code_simp
  have e: "t_detectedItemType multiple_test \<noteq> r_detectedItemType ?r"
    by (simp add: multiple_test_def)
  from wrong_item_type_first [OF a b c d e] show ?thesis .
qed

text \<open>
  C8 asks for that failure in every run whose result carries records and whose
  observed \<open>detectedItemType\<close> differs from the expected one. The code does not give
  it when the updated test cannot be built: the copy of the test and the two setters
  run before the comparison and outside any \<open>try\<close>. The search test below is the one
  the constructor builds from a configuration with \<open>url: null\<close> (the setter of
  \<open>input\<close> accepts \<open>null\<close>, whose type is \<open>'object'\<close>). Detection answers \<open>true\<close>
  where the test expects \<open>false\<close>, and the translation returns one record: \<open>run\<close>
  throws the error of the constructor, which rejects the serialized form of the test.
\<close>

theorem wrong_item_type_throws:
  "new_Test example_platform null_url_config = Returns null_input_test
   \<and> extraction (records_env (JBool True) (JArr [book_item])) null_input_test =
       Returns \<lparr>r_detectedItemType = JBool True, r_items = JArr [book_item],
                r_reason = JUndefined\<rparr>
   \<and> t_detectedItemType null_input_test = JBool False
   \<and> run example_platform (records_env (JBool True) (JArr [book_item])) null_input_test =
       Throws (Error ''search test input must be a string'')"
  by code_simp

section \<open>The expected detection failure (C9)\<close>

text \<open>
  C9. In a run of a web test that collects no records, the outcome is
  \<open>{status: 'success'}\<close> when no type was detected and the test expects
  \<open>detectedItemType\<close> to be exactly \<open>false\<close>; in every other case it is a failure
  with the collected reason.
\<close>

theorem expected_failure:
  assumes "t_type test = JStr ''web''"
    and "translateWeb env test = Returns r"
    and "\<not> truthy (r_items r)"
  shows "run P env test = Returns
     (if \<not> truthy (r_detectedItemType r) \<and> t_detectedItemType test = JBool False
      then \<lparr>status = Success, reason = None, updatedTest = None\<rparr>
      else \<lparr>status = Failure, reason = Some (r_reason r), updatedTest = None\<rparr>)"
  using assms by (simp add: run_def caught_def classify_def)

theorem expected_failure_witness:
  "t_type web_test = JStr ''web''
   \<and> translateWeb (example_env (Inr (0, \<lparr>r_detectedItemType = JUndefined, r_items = JNull,
        r_reason = JStr ''Detection failed''\<rparr>))) web_test =
       Returns \<lparr>r_detectedItemType = JUndefined, r_items = JNull,
        r_reason = JStr ''Detection failed''\<rparr>
   \<and> run example_platform (example_env (Inr (0, \<lparr>r_detectedItemType = JUndefined, r_items = JNull,
        r_reason = JStr ''Detection failed''\<rparr>))) web_test =
       Returns \<lparr>status = Success, reason = None, updatedTest = None\<rparr>"
proof -
  let ?r = "\<lparr>r_detectedItemType = JUndefined, r_items = JNull,
        r_reason = JStr ''Detection failed''\<rparr>"
  have a: "t_type web_test = JStr ''web''" by (simp add: web_test_def)
  have b: "translateWeb (example_env (Inr (0, ?r))) web_test = Returns ?r"
    by (simp add: run_defs web_test_def example_env_def)
  have c: "\<not> truthy (r_items ?r)" by simp
  have d: "t_detectedItemType web_test = JBool False" by (simp add: web_test_def)
  from expected_failure [OF a b c, of example_platform] a b d
  show ?thesis by simp
qed

section \<open>Equality of Test Cases is not symmetric (C5)\<close>

text \<open>
  C5 asks that \<open>equals\<close> is reflexive and symmetric. It is not symmetric: the first
  condition of \<open>deepEqual\<close> tests \<open>typeof a\<close> twice, so an object on the left is
  compared key by key with a primitive on the right, while a primitive on the left is
  compared with \<open>===\<close>. The two search tests below, built by the constructor, differ
  in an empty object against the empty string: the first equals the second, the second
  does not equal the first.
\<close>

theorem equals_not_symmetric:
  "new_Test example_platform search_config_a = Returns search_test_a
   \<and> new_Test example_platform search_config_b = Returns search_test_b
   \<and> equals example_platform search_test_a search_test_b = Returns True
   \<and> equals example_platform search_test_b search_test_a = Returns False"
  by code_simp

section \<open>The items of a Test Case are normalized (C10)\<close>

lemma map_outcome_normalized:
  "map_outcome (sanitizeItem P) xs = Returns ys \<Longrightarrow> list_all (normalized P) ys"
proof (induction xs arbitrary: ys)
  case Nil
  then show ?case by simp
next
  case (Cons x xs)
  from Cons.prems obtain y ys' where
    y: "sanitizeItem P x = Returns y" and
    ys': "map_outcome (sanitizeItem P) xs = Returns ys'" and
    ys: "ys = y # ys'"
    by (auto simp add: andThen_Returns)
  from y have "normalized P y" by (auto simp add: normalized_def)
  moreover from ys' have "list_all (normalized P) ys'" by (rule Cons.IH)
  ultimately show ?case by (simp add: ys)
qed

lemma set_items_normalized:
  "set_items P v t0 = Returns t \<Longrightarrow> items_normalized P t"
  by (auto simp add: set_items_def items_normalized_def andThen_Returns
      dest: map_outcome_normalized split: jsval.splits if_splits)

lemma set_items_only:
  "set_items P v t0 = Returns t \<Longrightarrow>
     t_type t = t_type t0 \<and> t_defer t = t_defer t0 \<and> t_input t = t_input t0
     \<and> t_detectedItemType t = t_detectedItemType t0"
  by (auto simp add: set_items_def andThen_Returns split: jsval.splits if_splits)

lemma set_detectedItemType_items:
  "set_detectedItemType d t0 = Returns t \<Longrightarrow> t_items t = t_items t0"
  by (auto simp add: set_detectedItemType_def split: if_splits)

lemma new_Test_normalized:
  "new_Test P init = Returns t \<Longrightarrow> items_normalized P t"
  by (auto simp add: new_Test_def andThen_Returns items_normalized_def
      dest!: set_detectedItemType_items dest: set_items_normalized [unfolded items_normalized_def])

lemma throw_Error_not_Returns [simp]: "throw_Error before v after \<noteq> Returns x"
  by (cases "to_String v") (simp_all add: throw_Error_def)

lemma other_setters_normalized:
  assumes "items_normalized P t0"
    and "set_type v t0 = Returns t \<or> set_defer v t0 = Returns t \<or> set_input v t0 = Returns t
         \<or> set_url v t0 = Returns t \<or> set_detectedItemType v t0 = Returns t"
  shows "items_normalized P t"
  using assms
  by (auto simp add: items_normalized_def set_type_def set_defer_def set_input_def set_url_def
      set_detectedItemType_def Let_def split: if_splits)

text \<open>
  C10. Whenever the \<open>items\<close> of a Test Case are an array, each element is a value
  returned by the normalizer: this holds of a test built by the constructor (from a
  configuration or from another test), it holds after every assignment to \<open>items\<close>,
  and the other setters keep it. The updated test that \<open>run\<close> compares with the
  expected one is built by the constructor and the setters, so both sides of that
  comparison hold normalized records.
\<close>

theorem items_always_normalized:
  "(new_Test P init = Returns t \<longrightarrow> items_normalized P t)
   \<and> (clone_Test P t0 = Returns t \<longrightarrow> items_normalized P t)
   \<and> (set_items P v t0 = Returns t \<longrightarrow> items_normalized P t)
   \<and> (items_normalized P t0 \<and>
        (set_type v t0 = Returns t \<or> set_defer v t0 = Returns t \<or> set_input v t0 = Returns t
         \<or> set_url v t0 = Returns t \<or> set_detectedItemType v t0 = Returns t)
        \<longrightarrow> items_normalized P t)
   \<and> (build_updatedTest P t0 r = Returns t \<longrightarrow> items_normalized P t)"
  by (auto simp add: clone_Test_def build_updatedTest_def andThen_Returns
      intro: new_Test_normalized set_items_normalized other_setters_normalized)

theorem items_always_normalized_witness:
  "new_Test example_platform book_config = Returns book_test
   \<and> items_normalized example_platform book_test"
proof -
  have a: "new_Test example_platform book_config = Returns book_test" by code_simp
  from items_always_normalized [of example_platform book_config book_test] a
  show ?thesis by simp
qed

section \<open>The normalizer is idempotent (C7)\<close>

subsection \<open>The JSON round trip\<close>



lemma json_props_Cons:
  "json_props ((k, v) # kvs) = Returns qs \<longleftrightarrow>
   (\<exists>r ps. json_roundtrip v = Returns r \<and> json_props kvs = Returns ps
      \<and> qs = (case r of None \<Rightarrow> ps | Some y \<Rightarrow> (k, y) # ps))"
  by (auto simp add: andThen_Returns)













lemma keys_json_props: "json_props kvs = Returns ps \<Longrightarrow> fst ` set ps \<subseteq> fst ` set kvs"
proof (induction kvs arbitrary: ps)
  case Nil
  then show ?case by simp
next
  case (Cons q kvs)
  obtain k v where q: "q = (k, v)" by (cases q)
  from Cons.prems obtain r ps' where ps': "json_props kvs = Returns ps'"
    and ps: "ps = (case r of None \<Rightarrow> ps' | Some y \<Rightarrow> (k, y) # ps')"
    unfolding q json_props_Cons by blast
  from Cons.IH [OF ps'] show ?case by (cases r) (auto simp add: ps q)
qed

lemma distinct_json_props:
  "json_props kvs = Returns ps \<Longrightarrow> distinct (map fst kvs) \<Longrightarrow> distinct (map fst ps)"
proof (induction kvs arbitrary: ps)
  case Nil
  then show ?case by simp
next
  case (Cons q kvs)
  obtain k v where q: "q = (k, v)" by (cases q)
  from Cons.prems(1) obtain r ps' where ps': "json_props kvs = Returns ps'"
    and ps: "ps = (case r of None \<Rightarrow> ps' | Some y \<Rightarrow> (k, y) # ps')"
    unfolding q json_props_Cons by blast
  from Cons.prems(2) have d: "distinct (map fst kvs)" and n: "k \<notin> fst ` set kvs"
    by (auto simp add: q)
  from keys_json_props [OF ps'] n have "k \<notin> fst ` set ps'" by blast
  with Cons.IH [OF ps' d] show ?case by (cases r) (auto simp add: ps)
qed









subsection \<open>The attachments\<close>
















subsection \<open>The loop over the fields\<close>













subsection \<open>The tags\<close>


subsection \<open>The normalizer on its own result\<close>





subsection \<open>The example platform is coherent\<close>












subsection \<open>The claim\<close>




section \<open>Serializing and reconstructing a Test Case (C6)\<close>

subsection \<open>What the constructor establishes\<close>







subsection \<open>Reconstruction from the serialized form\<close>







subsection \<open>A Test Case equals itself\<close>






subsection \<open>The claim\<close>




end
